theory Spec2Isabelle
  imports Main "HOL-Library.Word"
begin

unbundle bit_operations_syntax

section \<open>Build configuration and the driver flags\<close>

text \<open>
  \<^verbatim>\<open>driver.c\<close> tests its \<^verbatim>\<open>int flags\<close> argument against the constants
  \<^verbatim>\<open>DRIVER_AUDIO\<close>, \<^verbatim>\<open>DRIVER_VIDEO\<close>, \<^verbatim>\<open>DRIVER_INPUT\<close>, \<^verbatim>\<open>DRIVER_CAMERA\<close>, \<^verbatim>\<open>DRIVER_LOCATION\<close>,
  \<^verbatim>\<open>DRIVER_MENU\<close> and \<^verbatim>\<open>DRIVERS_VIDEO_INPUT\<close>. They are declared in \<^verbatim>\<open>driver.h\<close>, which is
  not among the sources, so their values are a parameter of the model, together with the
  two preprocessor switches the file is compiled under. Every theorem below holds for
  every choice of the seven values. A C \<^verbatim>\<open>int\<close> is a 32-bit word; \<^verbatim>\<open>flags & X\<close> in a
  condition is \<open>flags AND X \<noteq> 0\<close>.
\<close>

type_synonym int32 = "32 word"

record build_config =
  DRIVER_AUDIO :: int32
  DRIVER_VIDEO :: int32
  DRIVER_INPUT :: int32
  DRIVER_CAMERA :: int32
  DRIVER_LOCATION :: int32
  DRIVER_MENU :: int32
  DRIVERS_VIDEO_INPUT :: int32
  HAVE_MENU :: bool
  HAVE_DYNAMIC :: bool

section \<open>Calls into the other subsystems\<close>

text \<open>
  \<^verbatim>\<open>driver.c\<close> owns no state of its own. Everything it does is a call into another
  subsystem (\<^verbatim>\<open>video_driver_ctl\<close>, \<^verbatim>\<open>audio_driver_ctl\<close>, \<^verbatim>\<open>event_command\<close>, ...), chosen by
  what it reads back from those subsystems. The commands it sends are the constructors
  below, named as in the source; the queries (\<^verbatim>\<open>..._CTL_OWNS_DRIVER\<close>, \<^verbatim>\<open>..._CTL_IS_ACTIVE\<close>,
  ...) are fields of the record \<open>world\<close> further down.
\<close>

datatype rarch_display_ctl =
    RARCH_DISPLAY_CTL_MONITOR_ADJUST_SYSTEM_RATES
  | RARCH_DISPLAY_CTL_SET_NONBLOCK_STATE bool
  | RARCH_DISPLAY_CTL_UNSET_OWN_DRIVER
  | RARCH_DISPLAY_CTL_MONITOR_RESET
  | RARCH_DISPLAY_CTL_INIT
  | RARCH_DISPLAY_CTL_UNSET_VIDEO_CACHE_CONTEXT_ACK
  | RARCH_DISPLAY_CTL_DEINIT
  | RARCH_DISPLAY_CTL_DESTROY_DATA
  | RARCH_DISPLAY_CTL_DESTROY
  | RARCH_DISPLAY_CTL_FIND_DRIVER

datatype rarch_audio_ctl =
    RARCH_AUDIO_CTL_MONITOR_ADJUST_SYSTEM_RATES
  | RARCH_AUDIO_CTL_MONITOR_SET_REFRESH_RATE
  | RARCH_AUDIO_CTL_UNSET_OWN_DRIVER
  | RARCH_AUDIO_CTL_INIT
  | RARCH_AUDIO_CTL_DEINIT
  | RARCH_AUDIO_CTL_DESTROY_DATA
  | RARCH_AUDIO_CTL_DESTROY
  | RARCH_AUDIO_CTL_FIND_DRIVER

datatype rarch_input_ctl =
    RARCH_INPUT_CTL_UNSET_OWN_DRIVER
  | RARCH_INPUT_CTL_DESTROY_DATA
  | RARCH_INPUT_CTL_DESTROY
  | RARCH_INPUT_CTL_FIND_DRIVER

datatype rarch_camera_ctl =
    RARCH_CAMERA_CTL_UNSET_OWN_DRIVER
  | RARCH_CAMERA_CTL_DEINIT
  | RARCH_CAMERA_CTL_DESTROY

datatype rarch_location_ctl =
    RARCH_LOCATION_CTL_UNSET_OWN_DRIVER
  | RARCH_LOCATION_CTL_DEINIT
  | RARCH_LOCATION_CTL_DESTROY

datatype rarch_menu_ctl =
    RARCH_MENU_CTL_SET_OWN_DRIVER
  | RARCH_MENU_CTL_CONTEXT_RESET
  | RARCH_MENU_CTL_CONTEXT_DESTROY
  | RARCH_MENU_CTL_DEINIT
  | RARCH_MENU_CTL_DESTROY

datatype runloop_ctl_state = RUNLOOP_CTL_SET_FRAME_TIME_LAST

datatype event_cmd =
    EVENT_CMD_VIDEO_SET_NONBLOCKING_STATE
  | EVENT_CMD_REINIT
  | EVENT_CMD_RECORD_DEINIT
  | EVENT_CMD_RECORD_INIT
  | EVENT_CMD_CORE_INFO_INIT
  | EVENT_CMD_LOAD_CORE_PERSIST

datatype msg_hash_enums = MSG_RESTARTING_RECORDING_DUE_TO_DRIVER_REINIT

text \<open>
  \<^verbatim>\<open>struct retro_system_av_info\<close> is declared in \<^verbatim>\<open>libretro.h\<close>, not among the sources.
  The code only copies it with \<^verbatim>\<open>memcpy\<close>, so the model carries it as the bytes of the
  object. A \<^verbatim>\<open>float\<close> is only passed on as well and is carried as its 32 bits.
\<close>

type_synonym retro_system_av_info = "8 word list"

type_synonym float32 = "32 word"

datatype ext_call =
    Video_driver_ctl rarch_display_ctl
  | Audio_driver_ctl rarch_audio_ctl
  | Input_driver_ctl rarch_input_ctl
  | Camera_driver_ctl rarch_camera_ctl
  | Location_driver_ctl rarch_location_ctl
  | Menu_driver_ctl rarch_menu_ctl
  | Runloop_ctl runloop_ctl_state
  | Event_command event_cmd
  | Audio_driver_set_nonblocking_state bool
  | Video_monitor_set_refresh_rate float32
  | Runloop_msg_queue_push_new msg_hash_enums nat nat bool
  | Memcpy_system_av_info retro_system_av_info
  | Retro_get_system_info
  | Hw_render_context_reset
  | Init_camera
  | Init_location
  | Init_menu
  | Retro_uninit_libretro_cbs
  | Find_camera_driver
  | Find_location_driver
  | Find_menu_driver

text \<open>
  The state \<^verbatim>\<open>driver.c\<close> runs against: what each query of the source answers, the
  process-wide A/V info, and the sequence of calls issued so far, oldest first.

  \<^item> \<open>video_driver_is_active\<close>: \<^verbatim>\<open>video_driver_ctl(RARCH_DISPLAY_CTL_IS_ACTIVE, NULL)\<close>
  \<^item> \<open>video_driver_ptr\<close>: \<^verbatim>\<open>video_driver_get_ptr(false)\<close> is not \<^verbatim>\<open>NULL\<close>
  \<^item> \<open>video_driver_owns_driver\<close>, and likewise for audio, input, camera, location and
    menu: \<^verbatim>\<open>..._driver_ctl(..._CTL_OWNS_DRIVER, NULL)\<close>, the ownership flag
  \<^item> \<open>video_cache_context_ack\<close>: \<^verbatim>\<open>RARCH_DISPLAY_CTL_IS_VIDEO_CACHE_CONTEXT_ACK\<close>
  \<^item> \<open>hw_render_context_reset\<close>: \<^verbatim>\<open>video_driver_callback()->context_reset\<close> is not
    \<^verbatim>\<open>NULL\<close>
  \<^item> \<open>input_driver_is_nonblock_state\<close>: \<^verbatim>\<open>RARCH_INPUT_CTL_IS_NONBLOCK_STATE\<close>
  \<^item> \<open>camera_driver_is_active\<close>, \<open>location_driver_is_active\<close>: \<^verbatim>\<open>..._CTL_IS_ACTIVE\<close>
  \<^item> \<open>menu_system_info\<close>: the pointer \<^verbatim>\<open>RARCH_MENU_CTL_SYSTEM_INFO_GET\<close> stores is not
    \<^verbatim>\<open>NULL\<close>
  \<^item> \<open>settings_video_vsync\<close>: \<^verbatim>\<open>config_get_ptr()->video.vsync\<close>
  \<^item> \<open>system_force_nonblock\<close>: \<^verbatim>\<open>force_nonblock\<close> of the system info that
    \<^verbatim>\<open>RUNLOOP_CTL_SYSTEM_INFO_GET\<close> returns
  \<^item> \<open>recording_driver_data_ptr\<close>: \<^verbatim>\<open>recording_driver_get_data_ptr()\<close> is not \<^verbatim>\<open>NULL\<close>,
    a recording session is active
  \<^item> \<open>system_av_info\<close>: the object \<^verbatim>\<open>video_viewport_get_system_av_info()\<close> points to
\<close>

record world =
  video_driver_is_active :: bool
  video_driver_ptr :: bool
  video_driver_owns_driver :: bool
  video_cache_context_ack :: bool
  hw_render_context_reset :: bool
  audio_driver_owns_driver :: bool
  input_driver_is_nonblock_state :: bool
  input_driver_owns_driver :: bool
  camera_driver_is_active :: bool
  camera_driver_owns_driver :: bool
  location_driver_is_active :: bool
  location_driver_owns_driver :: bool
  menu_driver_owns_driver :: bool
  menu_system_info :: bool
  settings_video_vsync :: bool
  system_force_nonblock :: bool
  recording_driver_data_ptr :: bool
  system_av_info :: retro_system_av_info
  calls :: "ext_call list"

text \<open>
  Modelled from the spec: the bodies of \<^verbatim>\<open>video_driver_ctl\<close>, \<^verbatim>\<open>audio_driver_ctl\<close>,
  \<^verbatim>\<open>input_driver_ctl\<close>, \<^verbatim>\<open>camera_driver_ctl\<close>, \<^verbatim>\<open>location_driver_ctl\<close>, \<^verbatim>\<open>menu_driver_ctl\<close>,
  \<^verbatim>\<open>event_command\<close> and the other callees are not among the sources. The spec lists them
  as external collaborators with the interface \<open>owns_driver\<close>, \<open>set_own_driver\<close>,
  \<open>unset_own_driver\<close>, \<open>init\<close>, \<open>deinit\<close>, \<open>destroy\<close>, \<open>destroy_data\<close>, \<open>find_driver\<close>.
  Accordingly \<open>effect\<close> gives the setters their meaning on the flag that the matching
  query reads (\<open>set_own_driver\<close> and \<open>unset_own_driver\<close> write the ownership flag,
  \<^verbatim>\<open>UNSET_VIDEO_CACHE_CONTEXT_ACK\<close> clears the acknowledgement, the \<^verbatim>\<open>memcpy\<close> of
  \<^verbatim>\<open>driver_update_system_av_info\<close> overwrites the A/V info). What the other commands do
  inside their subsystem (allocating, freeing, re-entering the coordinator from
  \<^verbatim>\<open>EVENT_CMD_REINIT\<close>) is outside \<^verbatim>\<open>driver.c\<close>: they are recorded in \<open>calls\<close> and change
  no field that \<^verbatim>\<open>driver.c\<close> reads.
\<close>

fun effect :: "ext_call \<Rightarrow> world \<Rightarrow> world" where
  "effect (Video_driver_ctl RARCH_DISPLAY_CTL_UNSET_OWN_DRIVER) w =
     w\<lparr>video_driver_owns_driver := False\<rparr>"
| "effect (Video_driver_ctl RARCH_DISPLAY_CTL_UNSET_VIDEO_CACHE_CONTEXT_ACK) w =
     w\<lparr>video_cache_context_ack := False\<rparr>"
| "effect (Audio_driver_ctl RARCH_AUDIO_CTL_UNSET_OWN_DRIVER) w =
     w\<lparr>audio_driver_owns_driver := False\<rparr>"
| "effect (Input_driver_ctl RARCH_INPUT_CTL_UNSET_OWN_DRIVER) w =
     w\<lparr>input_driver_owns_driver := False\<rparr>"
| "effect (Camera_driver_ctl RARCH_CAMERA_CTL_UNSET_OWN_DRIVER) w =
     w\<lparr>camera_driver_owns_driver := False\<rparr>"
| "effect (Location_driver_ctl RARCH_LOCATION_CTL_UNSET_OWN_DRIVER) w =
     w\<lparr>location_driver_owns_driver := False\<rparr>"
| "effect (Menu_driver_ctl RARCH_MENU_CTL_SET_OWN_DRIVER) w =
     w\<lparr>menu_driver_owns_driver := True\<rparr>"
| "effect (Memcpy_system_av_info info) w = w\<lparr>system_av_info := info\<rparr>"
| "effect _ w = w"

definition call :: "ext_call \<Rightarrow> world \<Rightarrow> world" where
  "call c w = (effect c w)\<lparr>calls := calls w @ [c]\<rparr>"

abbreviation video_driver_ctl :: "rarch_display_ctl \<Rightarrow> world \<Rightarrow> world" where
  "video_driver_ctl c \<equiv> call (Video_driver_ctl c)"

abbreviation audio_driver_ctl :: "rarch_audio_ctl \<Rightarrow> world \<Rightarrow> world" where
  "audio_driver_ctl c \<equiv> call (Audio_driver_ctl c)"

abbreviation input_driver_ctl :: "rarch_input_ctl \<Rightarrow> world \<Rightarrow> world" where
  "input_driver_ctl c \<equiv> call (Input_driver_ctl c)"

abbreviation camera_driver_ctl :: "rarch_camera_ctl \<Rightarrow> world \<Rightarrow> world" where
  "camera_driver_ctl c \<equiv> call (Camera_driver_ctl c)"

abbreviation location_driver_ctl :: "rarch_location_ctl \<Rightarrow> world \<Rightarrow> world" where
  "location_driver_ctl c \<equiv> call (Location_driver_ctl c)"

abbreviation menu_driver_ctl :: "rarch_menu_ctl \<Rightarrow> world \<Rightarrow> world" where
  "menu_driver_ctl c \<equiv> call (Menu_driver_ctl c)"

abbreviation runloop_ctl :: "runloop_ctl_state \<Rightarrow> world \<Rightarrow> world" where
  "runloop_ctl c \<equiv> call (Runloop_ctl c)"

abbreviation event_command :: "event_cmd \<Rightarrow> world \<Rightarrow> world" where
  "event_command c \<equiv> call (Event_command c)"

subsection \<open>Statements\<close>

text \<open>
  The C functions are sequences of statements on the state. \<open>seq\<close> runs a list of
  statements in order, \<open>if_then c f\<close> is \<^verbatim>\<open>if (c) f;\<close> and \<open>if_else c f g\<close> is
  \<^verbatim>\<open>if (c) f; else g;\<close>, the condition read in the state the statement starts in. An early
  \<^verbatim>\<open>return\<close> under a condition is an \<open>if_then\<close> around the rest of the function.
\<close>

definition seq :: "(world \<Rightarrow> world) list \<Rightarrow> world \<Rightarrow> world" where
  "seq fs w = fold (\<lambda>f s. f s) fs w"

definition if_then :: "(world \<Rightarrow> bool) \<Rightarrow> (world \<Rightarrow> world) \<Rightarrow> world \<Rightarrow> world" where
  "if_then c f w = (if c w then f w else w)"

definition if_else ::
    "(world \<Rightarrow> bool) \<Rightarrow> (world \<Rightarrow> world) \<Rightarrow> (world \<Rightarrow> world) \<Rightarrow> world \<Rightarrow> world" where
  "if_else c f g w = (if c w then f w else g w)"

section \<open>The lifecycle coordinator\<close>

text \<open>
  \<^verbatim>\<open>driver_adjust_system_rates\<close> and \<^verbatim>\<open>init_drivers\<close> call
  \<^verbatim>\<open>driver_ctl(RARCH_DRIVER_CTL_SET_NONBLOCK_STATE, NULL)\<close>, whose case in \<^verbatim>\<open>driver_ctl\<close> is
  the single call \<^verbatim>\<open>driver_set_nonblock_state()\<close>; the model calls
  \<open>driver_set_nonblock_state\<close> there (lemma \<open>driver_ctl_set_nonblock_state\<close> below relates
  the two).
\<close>

definition driver_set_nonblock_state :: "world \<Rightarrow> world" where
  "driver_set_nonblock_state w =
     (let enable = input_driver_is_nonblock_state w in
      seq [
        if_then (\<lambda>s. video_driver_is_active s \<and> video_driver_ptr s)
          (\<lambda>s. let video_nonblock = enable;
                   video_nonblock = (if \<not> settings_video_vsync s \<or> system_force_nonblock s
                                     then True else video_nonblock)
               in video_driver_ctl (RARCH_DISPLAY_CTL_SET_NONBLOCK_STATE video_nonblock) s),
        call (Audio_driver_set_nonblocking_state enable)
      ] w)"

definition driver_adjust_system_rates :: "world \<Rightarrow> world" where
  "driver_adjust_system_rates =
     seq [
       audio_driver_ctl RARCH_AUDIO_CTL_MONITOR_ADJUST_SYSTEM_RATES,
       video_driver_ctl RARCH_DISPLAY_CTL_MONITOR_ADJUST_SYSTEM_RATES,
       if_then (\<lambda>s. video_driver_ptr s)
         (if_else (\<lambda>s. system_force_nonblock s)
            (event_command EVENT_CMD_VIDEO_SET_NONBLOCKING_STATE)
            driver_set_nonblock_state)
     ]"

text \<open>
  A null pointer that the code dereferences is a fault, not a return value.
  \<^verbatim>\<open>driver_ctl\<close> takes its payload as \<^verbatim>\<open>void *data\<close> and casts it according to the
  command; the model's payload says what \<^verbatim>\<open>data\<close> points to (\<open>None\<close> is \<^verbatim>\<open>NULL\<close>), and a
  payload of another type than the command casts to is reported as a fault as well.
\<close>

datatype fault = Null_pointer_dereference | Payload_of_another_type

text \<open>
  \<^verbatim>\<open>driver_update_system_av_info\<close>: \<open>info\<close> is the pointer \<^verbatim>\<open>const struct
  retro_system_av_info *info\<close>; \<^verbatim>\<open>memcpy\<close> reads through it.
\<close>

definition driver_update_system_av_info ::
    "retro_system_av_info option \<Rightarrow> world \<Rightarrow> fault + bool \<times> world" where
  "driver_update_system_av_info info w =
     (case info of
        None \<Rightarrow> Inl Null_pointer_dereference
      | Some av \<Rightarrow>
          Inr (True,
            seq [
              call (Memcpy_system_av_info av),
              event_command EVENT_CMD_REINIT,
              if_then (\<lambda>s. recording_driver_data_ptr s)
                (seq [
                   call (Runloop_msg_queue_push_new
                           MSG_RESTARTING_RECORDING_DUE_TO_DRIVER_REINIT 2 180 False),
                   event_command EVENT_CMD_RECORD_DEINIT,
                   event_command EVENT_CMD_RECORD_INIT
                 ])
            ] w))"

definition menu_update_libretro_info :: "build_config \<Rightarrow> world \<Rightarrow> world" where
  "menu_update_libretro_info K =
     if_then (\<lambda>s. menu_system_info s)
       (seq [
          if_then (\<lambda>s. \<not> HAVE_DYNAMIC K) (call Retro_get_system_info),
          event_command EVENT_CMD_CORE_INFO_INIT,
          event_command EVENT_CMD_LOAD_CORE_PERSIST
        ])"

definition init_drivers :: "build_config \<Rightarrow> int32 \<Rightarrow> world \<Rightarrow> world" where
  "init_drivers K flags =
     seq [
       if_then (\<lambda>s. flags AND DRIVER_VIDEO K \<noteq> 0)
         (video_driver_ctl RARCH_DISPLAY_CTL_UNSET_OWN_DRIVER),
       if_then (\<lambda>s. flags AND DRIVER_AUDIO K \<noteq> 0)
         (audio_driver_ctl RARCH_AUDIO_CTL_UNSET_OWN_DRIVER),
       if_then (\<lambda>s. flags AND DRIVER_INPUT K \<noteq> 0)
         (input_driver_ctl RARCH_INPUT_CTL_UNSET_OWN_DRIVER),
       if_then (\<lambda>s. flags AND DRIVER_CAMERA K \<noteq> 0)
         (camera_driver_ctl RARCH_CAMERA_CTL_UNSET_OWN_DRIVER),
       if_then (\<lambda>s. flags AND DRIVER_LOCATION K \<noteq> 0)
         (location_driver_ctl RARCH_LOCATION_CTL_UNSET_OWN_DRIVER),
       if_then (\<lambda>s. HAVE_MENU K)
         (menu_driver_ctl RARCH_MENU_CTL_SET_OWN_DRIVER),
       if_then (\<lambda>s. flags AND (DRIVER_VIDEO K OR DRIVER_AUDIO K) \<noteq> 0)
         driver_adjust_system_rates,
       if_then (\<lambda>s. flags AND DRIVER_VIDEO K \<noteq> 0)
         (seq [
            video_driver_ctl RARCH_DISPLAY_CTL_MONITOR_RESET,
            video_driver_ctl RARCH_DISPLAY_CTL_INIT,
            if_then (\<lambda>s. \<not> video_cache_context_ack s \<and> hw_render_context_reset s)
              (call Hw_render_context_reset),
            video_driver_ctl RARCH_DISPLAY_CTL_UNSET_VIDEO_CACHE_CONTEXT_ACK,
            runloop_ctl RUNLOOP_CTL_SET_FRAME_TIME_LAST
          ]),
       if_then (\<lambda>s. flags AND DRIVER_AUDIO K \<noteq> 0)
         (audio_driver_ctl RARCH_AUDIO_CTL_INIT),
       if_then (\<lambda>s. flags AND DRIVER_CAMERA K \<noteq> 0 \<and> camera_driver_is_active s)
         (call Init_camera),
       if_then (\<lambda>s. flags AND DRIVER_LOCATION K \<noteq> 0 \<and> location_driver_is_active s)
         (call Init_location),
       if_then (\<lambda>s. HAVE_MENU K)
         (seq [
            menu_update_libretro_info K,
            if_then (\<lambda>s. flags AND DRIVER_MENU K \<noteq> 0)
              (seq [call Init_menu, menu_driver_ctl RARCH_MENU_CTL_CONTEXT_RESET])
          ]),
       if_then (\<lambda>s. flags AND (DRIVER_VIDEO K OR DRIVER_AUDIO K) \<noteq> 0)
         (if_then (\<lambda>s. input_driver_is_nonblock_state s) driver_set_nonblock_state)
     ]"

definition uninit_drivers :: "build_config \<Rightarrow> int32 \<Rightarrow> world \<Rightarrow> world" where
  "uninit_drivers K flags =
     seq [
       if_then (\<lambda>s. HAVE_MENU K)
         (if_then (\<lambda>s. flags AND DRIVER_MENU K \<noteq> 0)
            (seq [
               menu_driver_ctl RARCH_MENU_CTL_CONTEXT_DESTROY,
               if_then (\<lambda>s. \<not> menu_driver_owns_driver s)
                 (menu_driver_ctl RARCH_MENU_CTL_DEINIT)
             ])),
       if_then (\<lambda>s. flags AND DRIVER_LOCATION K \<noteq> 0 \<and> \<not> location_driver_owns_driver s)
         (location_driver_ctl RARCH_LOCATION_CTL_DEINIT),
       if_then (\<lambda>s. flags AND DRIVER_CAMERA K \<noteq> 0 \<and> \<not> camera_driver_owns_driver s)
         (camera_driver_ctl RARCH_CAMERA_CTL_DEINIT),
       if_then (\<lambda>s. flags AND DRIVER_AUDIO K \<noteq> 0)
         (audio_driver_ctl RARCH_AUDIO_CTL_DEINIT),
       if_then (\<lambda>s. flags AND DRIVERS_VIDEO_INPUT K \<noteq> 0)
         (video_driver_ctl RARCH_DISPLAY_CTL_DEINIT),
       if_then (\<lambda>s. flags AND DRIVER_VIDEO K \<noteq> 0 \<and> \<not> video_driver_owns_driver s)
         (video_driver_ctl RARCH_DISPLAY_CTL_DESTROY_DATA),
       if_then (\<lambda>s. flags AND DRIVER_INPUT K \<noteq> 0 \<and> \<not> input_driver_owns_driver s)
         (input_driver_ctl RARCH_INPUT_CTL_DESTROY_DATA),
       if_then (\<lambda>s. flags AND DRIVER_AUDIO K \<noteq> 0 \<and> \<not> audio_driver_owns_driver s)
         (audio_driver_ctl RARCH_AUDIO_CTL_DESTROY_DATA)
     ]"

text \<open>
  \<^verbatim>\<open>driver_ctl\<close>. For \<^verbatim>\<open>RARCH_DRIVER_CTL_UPDATE_SYSTEM_AV_INFO\<close> the payload is a pointer to a
  pointer (\<^verbatim>\<open>const struct retro_system_av_info **info\<close>): \<open>Some (Av_info None)\<close> is a
  non-null \<^verbatim>\<open>data\<close> that holds \<^verbatim>\<open>NULL\<close>. The result is the \<^verbatim>\<open>bool\<close> the function returns
  and the state it leaves.
\<close>

datatype driver_ctl_state =
    RARCH_DRIVER_CTL_NONE
  | RARCH_DRIVER_CTL_DEINIT
  | RARCH_DRIVER_CTL_UNINIT
  | RARCH_DRIVER_CTL_INIT
  | RARCH_DRIVER_CTL_INIT_PRE
  | RARCH_DRIVER_CTL_SET_REFRESH_RATE
  | RARCH_DRIVER_CTL_SET_NONBLOCK_STATE
  | RARCH_DRIVER_CTL_UPDATE_SYSTEM_AV_INFO

datatype payload =
    Flags int32
  | Hz float32
  | Av_info "retro_system_av_info option"

definition driver_ctl ::
    "build_config \<Rightarrow> driver_ctl_state \<Rightarrow> payload option \<Rightarrow> world \<Rightarrow> fault + bool \<times> world" where
  "driver_ctl K state data w =
     (case state of
        RARCH_DRIVER_CTL_DEINIT \<Rightarrow>
          Inr (False,
            seq [
              video_driver_ctl RARCH_DISPLAY_CTL_DESTROY,
              audio_driver_ctl RARCH_AUDIO_CTL_DESTROY,
              input_driver_ctl RARCH_INPUT_CTL_DESTROY,
              if_then (\<lambda>s. HAVE_MENU K) (menu_driver_ctl RARCH_MENU_CTL_DESTROY),
              location_driver_ctl RARCH_LOCATION_CTL_DESTROY,
              camera_driver_ctl RARCH_CAMERA_CTL_DESTROY,
              call Retro_uninit_libretro_cbs
            ] w)
      | RARCH_DRIVER_CTL_UNINIT \<Rightarrow>
          (case data of
             None \<Rightarrow> Inr (False, w)
           | Some (Flags flags) \<Rightarrow> Inr (True, uninit_drivers K flags w)
           | Some _ \<Rightarrow> Inl Payload_of_another_type)
      | RARCH_DRIVER_CTL_INIT \<Rightarrow>
          (case data of
             None \<Rightarrow> Inr (False, w)
           | Some (Flags flags) \<Rightarrow> Inr (True, init_drivers K flags w)
           | Some _ \<Rightarrow> Inl Payload_of_another_type)
      | RARCH_DRIVER_CTL_INIT_PRE \<Rightarrow>
          Inr (False,
            seq [
              audio_driver_ctl RARCH_AUDIO_CTL_FIND_DRIVER,
              video_driver_ctl RARCH_DISPLAY_CTL_FIND_DRIVER,
              input_driver_ctl RARCH_INPUT_CTL_FIND_DRIVER,
              call Find_camera_driver,
              call Find_location_driver,
              if_then (\<lambda>s. HAVE_MENU K) (call Find_menu_driver)
            ] w)
      | RARCH_DRIVER_CTL_SET_REFRESH_RATE \<Rightarrow>
          (case data of
             None \<Rightarrow> Inl Null_pointer_dereference
           | Some (Hz hz) \<Rightarrow>
               Inr (False,
                 seq [
                   call (Video_monitor_set_refresh_rate hz),
                   audio_driver_ctl RARCH_AUDIO_CTL_MONITOR_SET_REFRESH_RATE,
                   driver_adjust_system_rates
                 ] w)
           | Some _ \<Rightarrow> Inl Payload_of_another_type)
      | RARCH_DRIVER_CTL_SET_NONBLOCK_STATE \<Rightarrow>
          Inr (False, driver_set_nonblock_state w)
      | RARCH_DRIVER_CTL_UPDATE_SYSTEM_AV_INFO \<Rightarrow>
          (case data of
             None \<Rightarrow> Inr (False, w)
           | Some (Av_info info) \<Rightarrow> driver_update_system_av_info info w
           | Some _ \<Rightarrow> Inl Payload_of_another_type)
      | RARCH_DRIVER_CTL_NONE \<Rightarrow> Inr (False, w))"

section \<open>Driver selection\<close>

text \<open>
  The hash constants of \<^verbatim>\<open>driver.c\<close>. \<^verbatim>\<open>msg_hash_calculate\<close> (\<^verbatim>\<open>msg_hash.c\<close>) is not among
  the sources; it is a parameter of the model (field \<open>msg_hash_calculate\<close> below).
\<close>

definition HASH_LOCATION_DRIVER :: "32 word" where "HASH_LOCATION_DRIVER = 0x09189689"
definition HASH_CAMERA_DRIVER :: "32 word" where "HASH_CAMERA_DRIVER = 0xf25db959"
definition HASH_MENU_DRIVER :: "32 word" where "HASH_MENU_DRIVER = 0xd607fb05"
definition HASH_INPUT_DRIVER :: "32 word" where "HASH_INPUT_DRIVER = 0x4c087840"
definition HASH_INPUT_JOYPAD_DRIVER :: "32 word" where "HASH_INPUT_JOYPAD_DRIVER = 0xab124146"
definition HASH_VIDEO_DRIVER :: "32 word" where "HASH_VIDEO_DRIVER = 0x1805a5e7"
definition HASH_AUDIO_DRIVER :: "32 word" where "HASH_AUDIO_DRIVER = 0x26594002"
definition HASH_AUDIO_RESAMPLER_DRIVER :: "32 word" where "HASH_AUDIO_RESAMPLER_DRIVER = 0xedcba9ec"
definition HASH_RECORD_DRIVER :: "32 word" where "HASH_RECORD_DRIVER = 0x144cd2cf"

text \<open>
  Modelled from the spec: \<^verbatim>\<open>camera_driver_find_handle\<close>, \<^verbatim>\<open>camera_driver_find_ident\<close> and
  their eight siblings are not among the sources. Following the backend enumerator of the
  spec (\<open>enumerate(category, index) -> (handle, name) | NONE\<close>, a pure query with
  \<open>index >= 0\<close>, stable: once \<open>NONE\<close>, \<open>NONE\<close> for every larger index), each category's
  registry is the list of the identifiers of its backends: a handle exists at \<open>i\<close> exactly
  when \<open>i\<close> is an index of the list, and the identifier is the entry there. The handle
  itself is opaque; the model uses the index for it. \<^verbatim>\<open>driver.c\<close> passes indices from 0
  upwards only.
\<close>

record registries =
  msg_hash_calculate :: "string \<Rightarrow> 32 word"
  camera_drivers :: "string list"
  location_drivers :: "string list"
  menu_ctx_drivers :: "string list"
  input_drivers :: "string list"
  joypad_drivers :: "string list"
  video_drivers :: "string list"
  audio_drivers :: "string list"
  record_drivers :: "string list"
  audio_resampler_drivers :: "string list"

definition find_handle :: "string list \<Rightarrow> int \<Rightarrow> nat option" where
  "find_handle ds i = (if 0 \<le> i \<and> i < int (length ds) then Some (nat i) else None)"

definition find_ident :: "string list \<Rightarrow> int \<Rightarrow> string" where
  "find_ident ds i = ds ! nat i"

text \<open>
  Modelled from the spec: the string helpers (\<^verbatim>\<open>strlcpy\<close>, \<^verbatim>\<open>strcmp\<close>, \<^verbatim>\<open>strcasecmp\<close>,
  \<^verbatim>\<open>string_is_empty\<close>) come from the C library and \<^verbatim>\<open>libretro-common\<close>. A C string is
  the list of its characters before the terminator. \<open>strlcpy dst src len\<close> is the content
  of the buffer \<open>dst\<close> of size \<open>len\<close> afterwards: at most \<open>len - 1\<close> characters of \<open>src\<close>
  (the spec: truncation on overflow), and nothing is written when \<open>len\<close> is 0. \<open>strcmp\<close>
  gives the sign of the comparison, which is all C fixes about its value; \<open>strcasecmp\<close>
  compares after \<open>tolower\<close> in the C locale (name match is case-insensitive).
\<close>

definition strlcpy :: "string \<Rightarrow> string \<Rightarrow> nat \<Rightarrow> string" where
  "strlcpy dst src len = (if len = 0 then dst else take (len - 1) src)"

definition tolower :: "char \<Rightarrow> char" where
  "tolower c =
     (let n = (of_char c :: nat) in if 65 \<le> n \<and> n \<le> 90 then char_of (n + 32) else c)"

fun strcmp :: "string \<Rightarrow> string \<Rightarrow> int" where
  "strcmp [] [] = 0"
| "strcmp [] (b # bs) = - 1"
| "strcmp (a # as) [] = 1"
| "strcmp (a # as) (b # bs) =
     (if a = b then strcmp as bs
      else if (of_char a :: nat) < of_char b then - 1 else 1)"

definition strcasecmp :: "string \<Rightarrow> string \<Rightarrow> int" where
  "strcasecmp a b = strcmp (map tolower a) (map tolower b)"

definition string_is_empty :: "string \<Rightarrow> bool" where
  "string_is_empty str = (str = [])"

text \<open>
  \<^verbatim>\<open>find_driver_nonempty\<close>. Each case of its \<^verbatim>\<open>switch\<close> is the same two statements on another
  registry, \<^verbatim>\<open>drv = X_driver_find_handle(i); if (drv) strlcpy(s, X_driver_find_ident(i),
  len);\<close>, written once as \<open>driver_find\<close>. The result is the pointer returned and the
  content of the buffer \<open>s\<close> afterwards.
\<close>

definition driver_find :: "string list \<Rightarrow> int \<Rightarrow> string \<Rightarrow> nat \<Rightarrow> nat option \<times> string" where
  "driver_find ds i s len =
     (let drv = find_handle ds i
      in (drv, if drv \<noteq> None then strlcpy s (find_ident ds i) len else s))"

definition find_driver_nonempty ::
    "build_config \<Rightarrow> registries \<Rightarrow> string \<Rightarrow> int \<Rightarrow> string \<Rightarrow> nat \<Rightarrow> nat option \<times> string" where
  "find_driver_nonempty K R label i s len =
     (let hash = msg_hash_calculate R label in
      if hash = HASH_CAMERA_DRIVER then driver_find (camera_drivers R) i s len
      else if hash = HASH_LOCATION_DRIVER then driver_find (location_drivers R) i s len
      else if hash = HASH_MENU_DRIVER then
        (if HAVE_MENU K then driver_find (menu_ctx_drivers R) i s len else (None, s))
      else if hash = HASH_INPUT_DRIVER then driver_find (input_drivers R) i s len
      else if hash = HASH_INPUT_JOYPAD_DRIVER then driver_find (joypad_drivers R) i s len
      else if hash = HASH_VIDEO_DRIVER then driver_find (video_drivers R) i s len
      else if hash = HASH_AUDIO_DRIVER then driver_find (audio_drivers R) i s len
      else if hash = HASH_RECORD_DRIVER then driver_find (record_drivers R) i s len
      else if hash = HASH_AUDIO_RESAMPLER_DRIVER then
        driver_find (audio_resampler_drivers R) i s len
      else (None, s))"

text \<open>
  \<^verbatim>\<open>find_driver_index\<close>: the \<^verbatim>\<open>for\<close> loop over \<open>i\<close>, with the buffer \<^verbatim>\<open>char str[256]\<close> carried
  along. The buffer starts uninitialised in C; it is read only after a non-null result of
  \<^verbatim>\<open>find_driver_nonempty\<close> has overwritten it, so the model starts it empty. The loop's
  \<^verbatim>\<open>if (!obj) return -1;\<close> repeats the loop condition. The registries are short static
  arrays, so the conversions between \<^verbatim>\<open>unsigned i\<close> and \<^verbatim>\<open>int\<close> never wrap.
\<close>

definition registry_bound :: "registries \<Rightarrow> nat" where
  "registry_bound R =
     length (camera_drivers R) + length (location_drivers R) + length (menu_ctx_drivers R)
     + length (input_drivers R) + length (joypad_drivers R) + length (video_drivers R)
     + length (audio_drivers R) + length (record_drivers R)
     + length (audio_resampler_drivers R)"

function find_driver_index_loop ::
    "build_config \<Rightarrow> registries \<Rightarrow> string \<Rightarrow> string \<Rightarrow> nat \<Rightarrow> string \<Rightarrow> int" where
  "find_driver_index_loop K R label drv i str =
     (if fst (find_driver_nonempty K R label (int i) str 256) = None then - 1
      else if string_is_empty (snd (find_driver_nonempty K R label (int i) str 256)) then - 1
      else if strcasecmp drv (snd (find_driver_nonempty K R label (int i) str 256)) = 0
        then int i
      else find_driver_index_loop K R label drv (Suc i)
             (snd (find_driver_nonempty K R label (int i) str 256)))"
  by pat_completeness auto
termination find_driver_index_loop
  by (relation "measure (\<lambda>(K, R, label, drv, i, str). registry_bound R - i)")
     (auto simp add: find_driver_nonempty_def driver_find_def find_handle_def registry_bound_def
        Let_def split: if_splits)

definition find_driver_index :: "build_config \<Rightarrow> registries \<Rightarrow> string \<Rightarrow> string \<Rightarrow> int" where
  "find_driver_index K R label drv = find_driver_index_loop K R label drv 0 []"

text \<open>
  \<^verbatim>\<open>find_prev_driver\<close> and \<^verbatim>\<open>find_next_driver\<close>: the result is the \<^verbatim>\<open>bool\<close> returned and the
  content of the name buffer \<open>s\<close> afterwards. The warning of the failing branch goes to
  the log only.
\<close>

definition find_prev_driver ::
    "build_config \<Rightarrow> registries \<Rightarrow> string \<Rightarrow> string \<Rightarrow> nat \<Rightarrow> bool \<times> string" where
  "find_prev_driver K R label s len =
     (let i = find_driver_index K R label s in
      if i > 0 then (True, snd (find_driver_nonempty K R label (i - 1) s len))
      else (False, s))"

definition find_next_driver ::
    "build_config \<Rightarrow> registries \<Rightarrow> string \<Rightarrow> string \<Rightarrow> nat \<Rightarrow> bool \<times> string" where
  "find_next_driver K R label s len =
     (let i = find_driver_index K R label s in
      if i \<ge> 0 \<and> strcmp s ''null'' \<noteq> 0
        then (True, snd (find_driver_nonempty K R label (i + 1) s len))
      else (False, s))"

section \<open>Notions used to state the properties\<close>

text \<open>The calls issued between a state and a later one.\<close>

definition issued :: "world \<Rightarrow> world \<Rightarrow> ext_call list" where
  "issued w w' = drop (length (calls w)) (calls w')"

text \<open>What \<^verbatim>\<open>driver_ctl\<close> returns: \<open>None\<close> when it faults.\<close>

definition returns :: "fault + bool \<times> world \<Rightarrow> bool option" where
  "returns r = (case r of Inl _ \<Rightarrow> None | Inr (b, _) \<Rightarrow> Some b)"

text \<open>The calls of one run of \<^verbatim>\<open>driver_set_nonblock_state\<close>.\<close>

definition nonblock_calls :: "world \<Rightarrow> ext_call list" where
  "nonblock_calls w =
     (if video_driver_is_active w \<and> video_driver_ptr w
      then [Video_driver_ctl (RARCH_DISPLAY_CTL_SET_NONBLOCK_STATE
              (input_driver_is_nonblock_state w \<or> \<not> settings_video_vsync w
               \<or> system_force_nonblock w))]
      else [])
     @ [Audio_driver_set_nonblocking_state (input_driver_is_nonblock_state w)]"

text \<open>The calls that only show in the call sequence.\<close>

fun plain :: "ext_call \<Rightarrow> bool" where
  "plain (Video_driver_ctl RARCH_DISPLAY_CTL_UNSET_OWN_DRIVER) = False"
| "plain (Video_driver_ctl RARCH_DISPLAY_CTL_UNSET_VIDEO_CACHE_CONTEXT_ACK) = False"
| "plain (Audio_driver_ctl RARCH_AUDIO_CTL_UNSET_OWN_DRIVER) = False"
| "plain (Input_driver_ctl RARCH_INPUT_CTL_UNSET_OWN_DRIVER) = False"
| "plain (Camera_driver_ctl RARCH_CAMERA_CTL_UNSET_OWN_DRIVER) = False"
| "plain (Location_driver_ctl RARCH_LOCATION_CTL_UNSET_OWN_DRIVER) = False"
| "plain (Menu_driver_ctl RARCH_MENU_CTL_SET_OWN_DRIVER) = False"
| "plain (Memcpy_system_av_info info) = False"
| "plain _ = True"

text \<open>
  The registry that the hash of a label selects in \<^verbatim>\<open>find_driver_nonempty\<close>; empty when
  no case of the \<^verbatim>\<open>switch\<close> matches, or for the menu in a build without \<^verbatim>\<open>HAVE_MENU\<close>.
\<close>

definition label_drivers :: "build_config \<Rightarrow> registries \<Rightarrow> string \<Rightarrow> string list" where
  "label_drivers K R label =
     (let hash = msg_hash_calculate R label in
      if hash = HASH_CAMERA_DRIVER then camera_drivers R
      else if hash = HASH_LOCATION_DRIVER then location_drivers R
      else if hash = HASH_MENU_DRIVER then (if HAVE_MENU K then menu_ctx_drivers R else [])
      else if hash = HASH_INPUT_DRIVER then input_drivers R
      else if hash = HASH_INPUT_JOYPAD_DRIVER then joypad_drivers R
      else if hash = HASH_VIDEO_DRIVER then video_drivers R
      else if hash = HASH_AUDIO_DRIVER then audio_drivers R
      else if hash = HASH_RECORD_DRIVER then record_drivers R
      else if hash = HASH_AUDIO_RESAMPLER_DRIVER then audio_resampler_drivers R
      else [])"

subsection \<open>A concrete configuration\<close>

text \<open>
  Concrete values for running the model. The flag values are seven separate bits and the
  build has the menu and is statically linked. The hash is the djb2 string hash
  (\<open>h * 33 + c\<close> from 5381, on 32 bits); lemma \<open>hash_labels\<close> shows that it gives the nine
  constants of \<^verbatim>\<open>driver.c\<close> on the nine labels. The general theorems assume none of
  this.
\<close>

definition example_config :: build_config where
  "example_config =
     \<lparr>DRIVER_AUDIO = 1, DRIVER_VIDEO = 2, DRIVER_INPUT = 4, DRIVER_CAMERA = 8,
      DRIVER_LOCATION = 16, DRIVER_MENU = 32, DRIVERS_VIDEO_INPUT = 64,
      HAVE_MENU = True, HAVE_DYNAMIC = False\<rparr>"

definition example_world :: world where
  "example_world =
     \<lparr>video_driver_is_active = True, video_driver_ptr = True,
      video_driver_owns_driver = False, video_cache_context_ack = False,
      hw_render_context_reset = False, audio_driver_owns_driver = False,
      input_driver_is_nonblock_state = False, input_driver_owns_driver = False,
      camera_driver_is_active = False, camera_driver_owns_driver = False,
      location_driver_is_active = False, location_driver_owns_driver = False,
      menu_driver_owns_driver = False, menu_system_info = True,
      settings_video_vsync = True, system_force_nonblock = False,
      recording_driver_data_ptr = True, system_av_info = [], calls = []\<rparr>"

text \<open>The same state with every ownership flag set.\<close>

definition owned_world :: world where
  "owned_world =
     example_world
       \<lparr>video_driver_owns_driver := True, audio_driver_owns_driver := True,
        input_driver_owns_driver := True, camera_driver_owns_driver := True,
        location_driver_owns_driver := True, menu_driver_owns_driver := True\<rparr>"

fun djb2 :: "32 word \<Rightarrow> string \<Rightarrow> 32 word" where
  "djb2 h [] = h"
| "djb2 h (c # cs) = djb2 (push_bit 5 h + h + of_nat (of_char c)) cs"

definition example_registries :: registries where
  "example_registries =
     \<lparr>msg_hash_calculate = djb2 5381,
      camera_drivers = [''null''],
      location_drivers = [''null''],
      menu_ctx_drivers = [''rgui'', ''null''],
      input_drivers = [''ctr'', ''null''],
      joypad_drivers = [''ctr'', ''null''],
      video_drivers = [''ctr'', ''null''],
      audio_drivers = [''csnd'', ''dsp'', ''null''],
      record_drivers = [''null''],
      audio_resampler_drivers = [''cc'', ''sinc'', ''nearest'', ''null'']\<rparr>"


section \<open>Properties of the statements\<close>

declare find_driver_index_loop.simps [simp del]

lemma seq_Nil: "seq [] w = w" by (simp add: seq_def)
lemma seq_Cons: "seq (f # fs) w = seq fs (f w)" by (simp add: seq_def)

lemma plain_effect: "plain c \<Longrightarrow> effect c w = w"
  by (induction c w rule: effect.induct) simp_all

lemma if_then_call_plain:
  "plain c \<Longrightarrow> if_then b (call c) w = w\<lparr>calls := calls w @ (if b w then [c] else [])\<rparr>"
  by (simp add: if_then_def call_def plain_effect)

lemma if_then_unset_video:
  "if_then b (call (Video_driver_ctl RARCH_DISPLAY_CTL_UNSET_OWN_DRIVER)) w =
     w\<lparr>video_driver_owns_driver := (\<not> b w \<and> video_driver_owns_driver w),
       calls := calls w @ (if b w then [Video_driver_ctl RARCH_DISPLAY_CTL_UNSET_OWN_DRIVER] else [])\<rparr>"
  by (simp add: if_then_def call_def)
lemma if_then_unset_audio:
  "if_then b (call (Audio_driver_ctl RARCH_AUDIO_CTL_UNSET_OWN_DRIVER)) w =
     w\<lparr>audio_driver_owns_driver := (\<not> b w \<and> audio_driver_owns_driver w),
       calls := calls w @ (if b w then [Audio_driver_ctl RARCH_AUDIO_CTL_UNSET_OWN_DRIVER] else [])\<rparr>"
  by (simp add: if_then_def call_def)
lemma if_then_unset_input:
  "if_then b (call (Input_driver_ctl RARCH_INPUT_CTL_UNSET_OWN_DRIVER)) w =
     w\<lparr>input_driver_owns_driver := (\<not> b w \<and> input_driver_owns_driver w),
       calls := calls w @ (if b w then [Input_driver_ctl RARCH_INPUT_CTL_UNSET_OWN_DRIVER] else [])\<rparr>"
  by (simp add: if_then_def call_def)
lemma if_then_unset_camera:
  "if_then b (call (Camera_driver_ctl RARCH_CAMERA_CTL_UNSET_OWN_DRIVER)) w =
     w\<lparr>camera_driver_owns_driver := (\<not> b w \<and> camera_driver_owns_driver w),
       calls := calls w @ (if b w then [Camera_driver_ctl RARCH_CAMERA_CTL_UNSET_OWN_DRIVER] else [])\<rparr>"
  by (simp add: if_then_def call_def)
lemma if_then_unset_location:
  "if_then b (call (Location_driver_ctl RARCH_LOCATION_CTL_UNSET_OWN_DRIVER)) w =
     w\<lparr>location_driver_owns_driver := (\<not> b w \<and> location_driver_owns_driver w),
       calls := calls w @ (if b w then [Location_driver_ctl RARCH_LOCATION_CTL_UNSET_OWN_DRIVER] else [])\<rparr>"
  by (simp add: if_then_def call_def)
lemma if_then_set_menu:
  "if_then b (call (Menu_driver_ctl RARCH_MENU_CTL_SET_OWN_DRIVER)) w =
     w\<lparr>menu_driver_owns_driver := (b w \<or> menu_driver_owns_driver w),
       calls := calls w @ (if b w then [Menu_driver_ctl RARCH_MENU_CTL_SET_OWN_DRIVER] else [])\<rparr>"
  by (simp add: if_then_def call_def)
lemma if_then_unset_ack:
  "if_then b (call (Video_driver_ctl RARCH_DISPLAY_CTL_UNSET_VIDEO_CACHE_CONTEXT_ACK)) w =
     w\<lparr>video_cache_context_ack := (\<not> b w \<and> video_cache_context_ack w),
       calls := calls w @ (if b w then [Video_driver_ctl RARCH_DISPLAY_CTL_UNSET_VIDEO_CACHE_CONTEXT_ACK] else [])\<rparr>"
  by (simp add: if_then_def call_def)

lemmas if_then_call =
  if_then_call_plain if_then_unset_video if_then_unset_audio if_then_unset_input
  if_then_unset_camera if_then_unset_location if_then_set_menu if_then_unset_ack

lemma if_then_True: "if_then (\<lambda>_. True) f = f" by (simp add: if_then_def fun_eq_iff)

lemma seq_map_True: "seq (map (if_then (\<lambda>_. True)) fs) w = seq fs w"
  by (induction fs arbitrary: w) (simp_all add: if_then_True seq_Nil seq_Cons)
lemma seq_map_False: "seq (map (if_then (\<lambda>_. False)) fs) w = w"
  by (induction fs arbitrary: w) (simp_all add: if_then_def seq_Nil seq_Cons)

lemma if_then_seq: "if_then b (seq fs) w = seq (map (if_then (\<lambda>_. b w)) fs) w"
proof (cases "b w")
  case True
  then show ?thesis by (simp add: seq_map_True if_then_def)
next
  case False
  then show ?thesis by (simp add: seq_map_False if_then_def)
qed

lemma if_then_if_then: "if_then b (if_then c f) w = if_then (\<lambda>s. b w \<and> c s) f w"
  by (simp add: if_then_def)

lemma if_then_if_else:
  "if_then b (if_else c f g) w = if_then (\<lambda>_. b w \<and> \<not> c w) g (if_then (\<lambda>_. b w \<and> c w) f w)"
  by (simp add: if_then_def if_else_def)

lemma driver_set_nonblock_state_eq:
  "driver_set_nonblock_state w = w\<lparr>calls := calls w @ nonblock_calls w\<rparr>"
  by (simp add: driver_set_nonblock_state_def nonblock_calls_def Let_def if_then_def
      seq_Nil seq_Cons call_def)

lemma if_then_nonblock:
  "if_then b driver_set_nonblock_state w = w\<lparr>calls := calls w @ (if b w then nonblock_calls w else [])\<rparr>"
  by (simp add: if_then_def driver_set_nonblock_state_eq)

lemma nonblock_calls_upd:
  "nonblock_calls (w\<lparr>calls := cs\<rparr>) = nonblock_calls w"
  "nonblock_calls (w\<lparr>video_driver_owns_driver := b\<rparr>) = nonblock_calls w"
  "nonblock_calls (w\<lparr>audio_driver_owns_driver := b\<rparr>) = nonblock_calls w"
  "nonblock_calls (w\<lparr>input_driver_owns_driver := b\<rparr>) = nonblock_calls w"
  "nonblock_calls (w\<lparr>camera_driver_owns_driver := b\<rparr>) = nonblock_calls w"
  "nonblock_calls (w\<lparr>location_driver_owns_driver := b\<rparr>) = nonblock_calls w"
  "nonblock_calls (w\<lparr>menu_driver_owns_driver := b\<rparr>) = nonblock_calls w"
  "nonblock_calls (w\<lparr>video_cache_context_ack := b\<rparr>) = nonblock_calls w"
  by (simp_all add: nonblock_calls_def)


lemmas steps =
  seq_Nil seq_Cons call_def if_then_call if_then_seq if_then_if_then if_then_if_else
  if_then_nonblock nonblock_calls_upd

lemma issued_append: "calls w' = calls w @ X \<Longrightarrow> issued w w' = X"
  by (simp add: issued_def)

lemma mem_set_if:
  "x \<in> set (if c then xs else ys) \<longleftrightarrow> (c \<and> x \<in> set xs) \<or> (\<not> c \<and> x \<in> set ys)"
  by simp


lemma uninit_drivers_eq:
  "uninit_drivers K flags w =
     w\<lparr>calls := calls w @
        (if HAVE_MENU K \<and> flags AND DRIVER_MENU K \<noteq> 0
         then [Menu_driver_ctl RARCH_MENU_CTL_CONTEXT_DESTROY] else []) @
        (if HAVE_MENU K \<and> flags AND DRIVER_MENU K \<noteq> 0 \<and> \<not> menu_driver_owns_driver w
         then [Menu_driver_ctl RARCH_MENU_CTL_DEINIT] else []) @
        (if flags AND DRIVER_LOCATION K \<noteq> 0 \<and> \<not> location_driver_owns_driver w
         then [Location_driver_ctl RARCH_LOCATION_CTL_DEINIT] else []) @
        (if flags AND DRIVER_CAMERA K \<noteq> 0 \<and> \<not> camera_driver_owns_driver w
         then [Camera_driver_ctl RARCH_CAMERA_CTL_DEINIT] else []) @
        (if flags AND DRIVER_AUDIO K \<noteq> 0
         then [Audio_driver_ctl RARCH_AUDIO_CTL_DEINIT] else []) @
        (if flags AND DRIVERS_VIDEO_INPUT K \<noteq> 0
         then [Video_driver_ctl RARCH_DISPLAY_CTL_DEINIT] else []) @
        (if flags AND DRIVER_VIDEO K \<noteq> 0 \<and> \<not> video_driver_owns_driver w
         then [Video_driver_ctl RARCH_DISPLAY_CTL_DESTROY_DATA] else []) @
        (if flags AND DRIVER_INPUT K \<noteq> 0 \<and> \<not> input_driver_owns_driver w
         then [Input_driver_ctl RARCH_INPUT_CTL_DESTROY_DATA] else []) @
        (if flags AND DRIVER_AUDIO K \<noteq> 0 \<and> \<not> audio_driver_owns_driver w
         then [Audio_driver_ctl RARCH_AUDIO_CTL_DESTROY_DATA] else [])\<rparr>"
  by (simp add: uninit_drivers_def steps split del: if_split)




lemma issued_uninit:
  "issued w (uninit_drivers K flags w) =
        (if HAVE_MENU K \<and> flags AND DRIVER_MENU K \<noteq> 0
         then [Menu_driver_ctl RARCH_MENU_CTL_CONTEXT_DESTROY] else []) @
        (if HAVE_MENU K \<and> flags AND DRIVER_MENU K \<noteq> 0 \<and> \<not> menu_driver_owns_driver w
         then [Menu_driver_ctl RARCH_MENU_CTL_DEINIT] else []) @
        (if flags AND DRIVER_LOCATION K \<noteq> 0 \<and> \<not> location_driver_owns_driver w
         then [Location_driver_ctl RARCH_LOCATION_CTL_DEINIT] else []) @
        (if flags AND DRIVER_CAMERA K \<noteq> 0 \<and> \<not> camera_driver_owns_driver w
         then [Camera_driver_ctl RARCH_CAMERA_CTL_DEINIT] else []) @
        (if flags AND DRIVER_AUDIO K \<noteq> 0
         then [Audio_driver_ctl RARCH_AUDIO_CTL_DEINIT] else []) @
        (if flags AND DRIVERS_VIDEO_INPUT K \<noteq> 0
         then [Video_driver_ctl RARCH_DISPLAY_CTL_DEINIT] else []) @
        (if flags AND DRIVER_VIDEO K \<noteq> 0 \<and> \<not> video_driver_owns_driver w
         then [Video_driver_ctl RARCH_DISPLAY_CTL_DESTROY_DATA] else []) @
        (if flags AND DRIVER_INPUT K \<noteq> 0 \<and> \<not> input_driver_owns_driver w
         then [Input_driver_ctl RARCH_INPUT_CTL_DESTROY_DATA] else []) @
        (if flags AND DRIVER_AUDIO K \<noteq> 0 \<and> \<not> audio_driver_owns_driver w
         then [Audio_driver_ctl RARCH_AUDIO_CTL_DESTROY_DATA] else [])"
  by (rule issued_append) (simp add: uninit_drivers_eq split del: if_split)


lemma mem_if:
  "x \<in> (if c then A else B) \<longleftrightarrow> (c \<and> x \<in> A) \<or> (\<not> c \<and> x \<in> B)"
  by simp

lemmas mem_calls = mem_set_if mem_if nonblock_calls_def




section \<open>Properties of the driver selection\<close>

lemma strcmp_eq_0: "strcmp a b = 0 \<longleftrightarrow> a = b"
  by (induction a b rule: strcmp.induct) simp_all

lemma strcasecmp_eq_0: "strcasecmp a b = 0 \<longleftrightarrow> map tolower a = map tolower b"
  by (simp add: strcasecmp_def strcmp_eq_0)

lemma driver_find_eq:
  "driver_find ds i s len =
     (if 0 \<le> i \<and> i < int (length ds) then (Some (nat i), strlcpy s (ds ! nat i) len)
      else (None, s))"
  by (simp add: driver_find_def find_handle_def find_ident_def Let_def)

lemma find_driver_nonempty_eq:
  "find_driver_nonempty K R label i s len = driver_find (label_drivers K R label) i s len"
  by (simp add: find_driver_nonempty_def label_drivers_def Let_def driver_find_eq)

lemma loop_found:
  "find_driver_index_loop K R label drv i str = r \<Longrightarrow> 0 \<le> r \<Longrightarrow>
     int i \<le> r \<and> nat r < length (label_drivers K R label)
     \<and> strcasecmp drv (strlcpy [] (label_drivers K R label ! nat r) 256) = 0"
proof (induction K R label drv i str rule: find_driver_index_loop.induct)
  case (1 K R label drv i str)
  let ?ds = "label_drivers K R label"
  let ?p = "find_driver_nonempty K R label (int i) str 256"
  show ?case
  proof (cases "i < length ?ds")
    case False
    then have "find_driver_index_loop K R label drv i str = - 1"
      by (subst find_driver_index_loop.simps)
         (simp add: find_driver_nonempty_eq driver_find_eq)
    with "1.prems" show ?thesis by simp
  next
    case True
    then have p: "?p = (Some i, take 255 (?ds ! i))"
      by (simp add: find_driver_nonempty_eq driver_find_eq strlcpy_def)
    show ?thesis
    proof (cases "string_is_empty (take 255 (?ds ! i))")
      case True
      with p have "find_driver_index_loop K R label drv i str = - 1"
        by (subst find_driver_index_loop.simps) simp
      with "1.prems" show ?thesis by simp
    next
      case nonempty: False
      show ?thesis
      proof (cases "strcasecmp drv (take 255 (?ds ! i)) = 0")
        case True
        with p nonempty have "find_driver_index_loop K R label drv i str = int i"
          by (subst find_driver_index_loop.simps) simp
        with "1.prems" True \<open>i < length ?ds\<close> show ?thesis
          by (auto simp add: strlcpy_def)
      next
        case False
        with p nonempty have
          "find_driver_index_loop K R label drv i str =
             find_driver_index_loop K R label drv (Suc i) (take 255 (?ds ! i))"
          by (subst find_driver_index_loop.simps) simp
        with "1.prems" have
          "find_driver_index_loop K R label drv (Suc i) (snd ?p) = r"
          by (simp add: p)
        from "1.IH" [OF _ _ _ this \<open>0 \<le> r\<close>] p nonempty False show ?thesis
          by simp
      qed
    qed
  qed
qed

lemma find_driver_index_found:
  "0 \<le> find_driver_index K R label drv \<Longrightarrow>
     nat (find_driver_index K R label drv) < length (label_drivers K R label)
     \<and> strcasecmp drv
         (strlcpy [] (label_drivers K R label ! nat (find_driver_index K R label drv)) 256) = 0"
  using loop_found [of K R label drv 0 "[]" "find_driver_index K R label drv"]
  by (simp add: find_driver_index_def)

lemma hash_labels:
  "djb2 5381 ''location_driver'' = HASH_LOCATION_DRIVER"
  "djb2 5381 ''camera_driver'' = HASH_CAMERA_DRIVER"
  "djb2 5381 ''menu_driver'' = HASH_MENU_DRIVER"
  "djb2 5381 ''input_driver'' = HASH_INPUT_DRIVER"
  "djb2 5381 ''input_joypad_driver'' = HASH_INPUT_JOYPAD_DRIVER"
  "djb2 5381 ''video_driver'' = HASH_VIDEO_DRIVER"
  "djb2 5381 ''audio_driver'' = HASH_AUDIO_DRIVER"
  "djb2 5381 ''audio_resampler_driver'' = HASH_AUDIO_RESAMPLER_DRIVER"
  "djb2 5381 ''record_driver'' = HASH_RECORD_DRIVER"
  by (simp_all add: HASH_LOCATION_DRIVER_def HASH_CAMERA_DRIVER_def HASH_MENU_DRIVER_def
      HASH_INPUT_DRIVER_def HASH_INPUT_JOYPAD_DRIVER_def HASH_VIDEO_DRIVER_def
      HASH_AUDIO_DRIVER_def HASH_AUDIO_RESAMPLER_DRIVER_def HASH_RECORD_DRIVER_def)


lemma example_label:
  "label_drivers example_config example_registries ''audio_driver''
     = [''csnd'', ''dsp'', ''null'']"
  by (simp add: label_drivers_def example_registries_def example_config_def hash_labels Let_def
      HASH_LOCATION_DRIVER_def HASH_CAMERA_DRIVER_def HASH_MENU_DRIVER_def
      HASH_INPUT_DRIVER_def HASH_INPUT_JOYPAD_DRIVER_def HASH_VIDEO_DRIVER_def
      HASH_AUDIO_DRIVER_def HASH_AUDIO_RESAMPLER_DRIVER_def HASH_RECORD_DRIVER_def)

lemma example_index:
  "find_driver_index example_config example_registries ''audio_driver'' ''DSP'' = 1"
  "find_driver_index example_config example_registries ''audio_driver'' ''csnd'' = 0"
  "find_driver_index example_config example_registries ''audio_driver'' ''null'' = 2"
  "find_driver_index example_config example_registries ''audio_driver'' ''ctr'' = - 1"
  by code_simp+


section \<open>The entry point\<close>

lemma driver_ctl_set_nonblock_state:
  "driver_ctl K RARCH_DRIVER_CTL_SET_NONBLOCK_STATE data w =
     Inr (False, driver_set_nonblock_state w)"
  by (simp add: driver_ctl_def)

lemma update_system_av_info_eq:
  "driver_update_system_av_info (Some info) w =
     Inr (True,
       w\<lparr>system_av_info := info,
         calls := calls w @
           [Memcpy_system_av_info info, Event_command EVENT_CMD_REINIT] @
           (if recording_driver_data_ptr w
            then [Runloop_msg_queue_push_new
                    MSG_RESTARTING_RECORDING_DUE_TO_DRIVER_REINIT 2 180 False,
                  Event_command EVENT_CMD_RECORD_DEINIT,
                  Event_command EVENT_CMD_RECORD_INIT]
            else [])\<rparr>)"
  by (simp add: driver_update_system_av_info_def steps)

lemma deinit_eq:
  "driver_ctl K RARCH_DRIVER_CTL_DEINIT data w =
     Inr (False,
       w\<lparr>calls := calls w @
           [Video_driver_ctl RARCH_DISPLAY_CTL_DESTROY,
            Audio_driver_ctl RARCH_AUDIO_CTL_DESTROY,
            Input_driver_ctl RARCH_INPUT_CTL_DESTROY] @
           (if HAVE_MENU K then [Menu_driver_ctl RARCH_MENU_CTL_DESTROY] else []) @
           [Location_driver_ctl RARCH_LOCATION_CTL_DESTROY,
            Camera_driver_ctl RARCH_CAMERA_CTL_DESTROY,
            Retro_uninit_libretro_cbs]\<rparr>)"
  by (simp add: driver_ctl_def steps)

lemma returns_simps:
  "returns (Inl e) = None"
  "returns (Inr (b, w)) = Some b"
  by (simp_all add: returns_def)

text \<open>
  C1 (as amended). \<^verbatim>\<open>RARCH_DRIVER_CTL_UPDATE_SYSTEM_AV_INFO\<close> returns true for every
  invocation whose payload pointer is non-null and holds a pointer to an A/V info record,
  in every state. With a null payload pointer the guard \<^verbatim>\<open>if (info)\<close> fails and the
  command returns false, leaving the state as it was; a non-null payload that holds a null
  record pointer makes \<^verbatim>\<open>memcpy\<close> read through a null pointer.
\<close>

theorem C1_update_av_info_result:
  "returns (driver_ctl K RARCH_DRIVER_CTL_UPDATE_SYSTEM_AV_INFO (Some (Av_info (Some info))) w)
     = Some True
   \<and> driver_ctl K RARCH_DRIVER_CTL_UPDATE_SYSTEM_AV_INFO None w = Inr (False, w)
   \<and> driver_ctl K RARCH_DRIVER_CTL_UPDATE_SYSTEM_AV_INFO (Some (Av_info None)) w
       = Inl Null_pointer_dereference"
  by (simp add: driver_ctl_def update_system_av_info_eq returns_simps)
     (simp add: driver_update_system_av_info_def)

theorem C1_update_av_info_result_witness:
  "returns (driver_ctl example_config RARCH_DRIVER_CTL_UPDATE_SYSTEM_AV_INFO
              (Some (Av_info (Some [1, 2, 3]))) example_world) = Some True"
  using C1_update_av_info_result [of example_config "[1, 2, 3]" example_world]
  by simp

text \<open>
  C1, the claim as stated, fails: invoked with a null payload pointer the command returns
  false, not success.
\<close>

theorem C1_null_payload_counterexample:
  "returns (driver_ctl example_config RARCH_DRIVER_CTL_UPDATE_SYSTEM_AV_INFO None example_world)
     = Some False"
  by (simp add: driver_ctl_def returns_simps)

text \<open>
  C4. In every state, \<^verbatim>\<open>RARCH_DRIVER_CTL_INIT\<close> and \<^verbatim>\<open>RARCH_DRIVER_CTL_UNINIT\<close> with a null
  bitmask pointer return false, and the state after the call is the state before it: no
  call is issued and no flag is written.
\<close>

theorem C4_null_bitmask:
  "driver_ctl K RARCH_DRIVER_CTL_INIT None w = Inr (False, w)
   \<and> driver_ctl K RARCH_DRIVER_CTL_UNINIT None w = Inr (False, w)"
  by (simp add: driver_ctl_def)

theorem C4_null_bitmask_witness:
  "driver_ctl example_config RARCH_DRIVER_CTL_INIT None example_world
     = Inr (False, example_world)
   \<and> driver_ctl example_config RARCH_DRIVER_CTL_UNINIT None example_world
     = Inr (False, example_world)"
  using C4_null_bitmask [of example_config example_world]
  by simp

text \<open>
  C7. In every state \<^verbatim>\<open>RARCH_DRIVER_CTL_SET_NONBLOCK_STATE\<close> issues, when the video driver
  is active and its pointer is non-null, one \<^verbatim>\<open>RARCH_DISPLAY_CTL_SET_NONBLOCK_STATE\<close> with
  the value (input nonblocking) or (vsync disabled) or (system forces nonblocking), and
  then, whatever the video state, \<^verbatim>\<open>audio_driver_set_nonblocking_state\<close> with the input
  nonblocking flag itself; nothing else changes. In particular, with vsync enabled, no
  forced nonblocking and input nonblocking false, video is set to blocking.
\<close>

theorem C7_set_nonblock_state:
  "driver_ctl K RARCH_DRIVER_CTL_SET_NONBLOCK_STATE data w =
     Inr (False,
       w\<lparr>calls := calls w @
           (if video_driver_is_active w \<and> video_driver_ptr w
            then [Video_driver_ctl (RARCH_DISPLAY_CTL_SET_NONBLOCK_STATE
                    (input_driver_is_nonblock_state w \<or> \<not> settings_video_vsync w
                     \<or> system_force_nonblock w))]
            else []) @
           [Audio_driver_set_nonblocking_state (input_driver_is_nonblock_state w)]\<rparr>)
   \<and> (video_driver_is_active w \<and> video_driver_ptr w \<and> settings_video_vsync w
        \<and> \<not> system_force_nonblock w \<and> \<not> input_driver_is_nonblock_state w \<longrightarrow>
      driver_ctl K RARCH_DRIVER_CTL_SET_NONBLOCK_STATE data w =
        Inr (False,
          w\<lparr>calls := calls w @
              [Video_driver_ctl (RARCH_DISPLAY_CTL_SET_NONBLOCK_STATE False),
               Audio_driver_set_nonblocking_state False]\<rparr>))"
  by (simp add: driver_ctl_set_nonblock_state driver_set_nonblock_state_eq nonblock_calls_def)

theorem C7_set_nonblock_state_witness:
  "driver_ctl example_config RARCH_DRIVER_CTL_SET_NONBLOCK_STATE None example_world =
     Inr (False,
       example_world\<lparr>calls :=
         [Video_driver_ctl (RARCH_DISPLAY_CTL_SET_NONBLOCK_STATE False),
          Audio_driver_set_nonblocking_state False]\<rparr>)"
  using C7_set_nonblock_state [of example_config None example_world]
  by (simp add: example_world_def)

text \<open>
  C8. For every A/V info record, \<^verbatim>\<open>RARCH_DRIVER_CTL_UPDATE_SYSTEM_AV_INFO\<close> first copies
  the record over the process-wide A/V info, then issues \<^verbatim>\<open>EVENT_CMD_REINIT\<close>, and then,
  when a recording session is active, the restart message followed by exactly one
  \<^verbatim>\<open>EVENT_CMD_RECORD_DEINIT\<close> and then exactly one \<^verbatim>\<open>EVENT_CMD_RECORD_INIT\<close>; with no
  recording session neither is issued. Afterwards the process-wide A/V info is the new
  record. (The recording pointer is read after the reinit event; the model takes it that
  the event, whose handler is outside \<^verbatim>\<open>driver.c\<close>, leaves it as it was.)
\<close>

theorem C8_update_av_info_recording:
  "driver_ctl K RARCH_DRIVER_CTL_UPDATE_SYSTEM_AV_INFO (Some (Av_info (Some info))) w =
     Inr (True,
       w\<lparr>system_av_info := info,
         calls := calls w @
           [Memcpy_system_av_info info, Event_command EVENT_CMD_REINIT] @
           (if recording_driver_data_ptr w
            then [Runloop_msg_queue_push_new
                    MSG_RESTARTING_RECORDING_DUE_TO_DRIVER_REINIT 2 180 False,
                  Event_command EVENT_CMD_RECORD_DEINIT,
                  Event_command EVENT_CMD_RECORD_INIT]
            else [])\<rparr>)"
  by (simp add: driver_ctl_def update_system_av_info_eq)

theorem C8_update_av_info_recording_witness:
  "driver_ctl example_config RARCH_DRIVER_CTL_UPDATE_SYSTEM_AV_INFO
       (Some (Av_info (Some [7, 8]))) example_world =
     Inr (True,
       example_world\<lparr>system_av_info := [7, 8],
         calls :=
           [Memcpy_system_av_info [7, 8], Event_command EVENT_CMD_REINIT,
            Runloop_msg_queue_push_new
              MSG_RESTARTING_RECORDING_DUE_TO_DRIVER_REINIT 2 180 False,
            Event_command EVENT_CMD_RECORD_DEINIT,
            Event_command EVENT_CMD_RECORD_INIT]\<rparr>)
   \<and> driver_ctl example_config RARCH_DRIVER_CTL_UPDATE_SYSTEM_AV_INFO
       (Some (Av_info (Some [7, 8]))) (example_world\<lparr>recording_driver_data_ptr := False\<rparr>) =
     Inr (True,
       example_world\<lparr>recording_driver_data_ptr := False, system_av_info := [7, 8],
         calls := [Memcpy_system_av_info [7, 8], Event_command EVENT_CMD_REINIT]\<rparr>)"
  using C8_update_av_info_recording [of example_config "[7, 8]" example_world]
    C8_update_av_info_recording [of example_config "[7, 8]"
      "example_world\<lparr>recording_driver_data_ptr := False\<rparr>"]
  by (simp add: example_world_def)

text \<open>
  C9. \<^verbatim>\<open>driver_ctl\<close> returns true only for \<^verbatim>\<open>RARCH_DRIVER_CTL_INIT\<close>,
  \<^verbatim>\<open>RARCH_DRIVER_CTL_UNINIT\<close> and \<^verbatim>\<open>RARCH_DRIVER_CTL_UPDATE_SYSTEM_AV_INFO\<close>, each with a
  non-null payload, and for these it does return true (for the A/V info update, when the
  payload holds a record). \<^verbatim>\<open>RARCH_DRIVER_CTL_DEINIT\<close>, \<^verbatim>\<open>RARCH_DRIVER_CTL_INIT_PRE\<close>,
  \<^verbatim>\<open>RARCH_DRIVER_CTL_SET_REFRESH_RATE\<close> (given its rate) and
  \<^verbatim>\<open>RARCH_DRIVER_CTL_SET_NONBLOCK_STATE\<close> return false although they complete all their
  effects.
\<close>

theorem C9_return_values:
  "(returns (driver_ctl K state data w) = Some True \<longrightarrow>
      (state = RARCH_DRIVER_CTL_INIT \<or> state = RARCH_DRIVER_CTL_UNINIT
       \<or> state = RARCH_DRIVER_CTL_UPDATE_SYSTEM_AV_INFO) \<and> data \<noteq> None)
   \<and> returns (driver_ctl K RARCH_DRIVER_CTL_INIT (Some (Flags flags)) w) = Some True
   \<and> returns (driver_ctl K RARCH_DRIVER_CTL_UNINIT (Some (Flags flags)) w) = Some True
   \<and> returns (driver_ctl K RARCH_DRIVER_CTL_UPDATE_SYSTEM_AV_INFO
                (Some (Av_info (Some info))) w) = Some True
   \<and> returns (driver_ctl K RARCH_DRIVER_CTL_DEINIT data w) = Some False
   \<and> returns (driver_ctl K RARCH_DRIVER_CTL_INIT_PRE data w) = Some False
   \<and> returns (driver_ctl K RARCH_DRIVER_CTL_SET_REFRESH_RATE (Some (Hz hz)) w) = Some False
   \<and> returns (driver_ctl K RARCH_DRIVER_CTL_SET_NONBLOCK_STATE data w) = Some False"
proof -
  have only: "returns (driver_ctl K state data w) = Some True \<longrightarrow>
      (state = RARCH_DRIVER_CTL_INIT \<or> state = RARCH_DRIVER_CTL_UNINIT
       \<or> state = RARCH_DRIVER_CTL_UPDATE_SYSTEM_AV_INFO) \<and> data \<noteq> None"
    by (cases state; cases data)
       (simp_all add: driver_ctl_def returns_simps split: payload.splits)
  have upd: "returns (driver_ctl K RARCH_DRIVER_CTL_UPDATE_SYSTEM_AV_INFO
                (Some (Av_info (Some info))) w) = Some True"
    by (simp add: driver_ctl_def update_system_av_info_eq returns_simps)
  show ?thesis
    using only upd by (simp add: driver_ctl_def returns_simps)
qed

theorem C9_return_values_witness:
  "returns (driver_ctl example_config RARCH_DRIVER_CTL_INIT (Some (Flags 3)) example_world)
     = Some True
   \<and> returns (driver_ctl example_config RARCH_DRIVER_CTL_DEINIT (Some (Flags 3)) example_world)
     = Some False
   \<and> RARCH_DRIVER_CTL_INIT \<noteq> RARCH_DRIVER_CTL_DEINIT
   \<and> Some (Flags 3) \<noteq> None"
  using C9_return_values
    [of example_config RARCH_DRIVER_CTL_INIT "Some (Flags 3)" example_world 3 "[]" 0]
  by simp

text \<open>
  C10. \<^verbatim>\<open>RARCH_DRIVER_CTL_SET_REFRESH_RATE\<close> reads \<^verbatim>\<open>*hz\<close> with no null check: with a null
  payload pointer the command dereferences a null pointer, and with a non-null payload it
  runs to the end (and returns false). \<^verbatim>\<open>RARCH_DRIVER_CTL_INIT\<close> and
  \<^verbatim>\<open>RARCH_DRIVER_CTL_UNINIT\<close> check their payload first and return false on a null pointer.
\<close>

theorem C10_refresh_rate_null_payload:
  "driver_ctl K RARCH_DRIVER_CTL_SET_REFRESH_RATE None w = Inl Null_pointer_dereference
   \<and> driver_ctl K RARCH_DRIVER_CTL_SET_REFRESH_RATE (Some (Hz hz)) w =
       Inr (False,
         driver_adjust_system_rates
           (audio_driver_ctl RARCH_AUDIO_CTL_MONITOR_SET_REFRESH_RATE
             (call (Video_monitor_set_refresh_rate hz) w)))
   \<and> returns (driver_ctl K RARCH_DRIVER_CTL_INIT None w) = Some False
   \<and> returns (driver_ctl K RARCH_DRIVER_CTL_UNINIT None w) = Some False"
  by (simp add: driver_ctl_def returns_simps seq_Nil seq_Cons)

theorem C10_refresh_rate_null_payload_witness:
  "driver_ctl example_config RARCH_DRIVER_CTL_SET_REFRESH_RATE None example_world
     = Inl Null_pointer_dereference
   \<and> returns (driver_ctl example_config RARCH_DRIVER_CTL_SET_REFRESH_RATE
                (Some (Hz 0x42700000)) example_world) = Some False"
  using C10_refresh_rate_null_payload [of example_config example_world "0x42700000"]
  by (simp add: returns_simps)


section \<open>Bitmask and ownership\<close>

lemma issued_uninit_mem:
  "Menu_driver_ctl RARCH_MENU_CTL_CONTEXT_DESTROY \<in> set (issued w (uninit_drivers K flags w))
     \<longleftrightarrow> HAVE_MENU K \<and> flags AND DRIVER_MENU K \<noteq> 0"
  "Menu_driver_ctl RARCH_MENU_CTL_DEINIT \<in> set (issued w (uninit_drivers K flags w))
     \<longleftrightarrow> HAVE_MENU K \<and> flags AND DRIVER_MENU K \<noteq> 0 \<and> \<not> menu_driver_owns_driver w"
  "Location_driver_ctl RARCH_LOCATION_CTL_DEINIT \<in> set (issued w (uninit_drivers K flags w))
     \<longleftrightarrow> flags AND DRIVER_LOCATION K \<noteq> 0 \<and> \<not> location_driver_owns_driver w"
  "Camera_driver_ctl RARCH_CAMERA_CTL_DEINIT \<in> set (issued w (uninit_drivers K flags w))
     \<longleftrightarrow> flags AND DRIVER_CAMERA K \<noteq> 0 \<and> \<not> camera_driver_owns_driver w"
  "Audio_driver_ctl RARCH_AUDIO_CTL_DEINIT \<in> set (issued w (uninit_drivers K flags w))
     \<longleftrightarrow> flags AND DRIVER_AUDIO K \<noteq> 0"
  "Video_driver_ctl RARCH_DISPLAY_CTL_DEINIT \<in> set (issued w (uninit_drivers K flags w))
     \<longleftrightarrow> flags AND DRIVERS_VIDEO_INPUT K \<noteq> 0"
  "Video_driver_ctl RARCH_DISPLAY_CTL_DESTROY_DATA \<in> set (issued w (uninit_drivers K flags w))
     \<longleftrightarrow> flags AND DRIVER_VIDEO K \<noteq> 0 \<and> \<not> video_driver_owns_driver w"
  "Input_driver_ctl RARCH_INPUT_CTL_DESTROY_DATA \<in> set (issued w (uninit_drivers K flags w))
     \<longleftrightarrow> flags AND DRIVER_INPUT K \<noteq> 0 \<and> \<not> input_driver_owns_driver w"
  "Audio_driver_ctl RARCH_AUDIO_CTL_DESTROY_DATA \<in> set (issued w (uninit_drivers K flags w))
     \<longleftrightarrow> flags AND DRIVER_AUDIO K \<noteq> 0 \<and> \<not> audio_driver_owns_driver w"
  by (simp_all add: issued_uninit mem_calls split del: if_split)









text \<open>
  C3 (as amended). \<^verbatim>\<open>UNINIT\<close> issues the release call that the source guards with the
  ownership query exactly when the category is in the bitmask and its ownership flag is
  clear: \<^verbatim>\<open>DEINIT\<close> for menu, location and camera, \<^verbatim>\<open>DESTROY_DATA\<close> for video, input and
  audio. So with the flag set the guarded call is never issued, and \<^verbatim>\<open>UNINIT(MENU)\<close> skips
  the menu \<^verbatim>\<open>DEINIT\<close> exactly when the menu ownership flag is set. The calls the source
  does not guard are issued whatever the flags say: the menu \<^verbatim>\<open>CONTEXT_DESTROY\<close>, the audio
  \<^verbatim>\<open>DEINIT\<close> and the video \<^verbatim>\<open>DEINIT\<close> of \<^verbatim>\<open>UNINIT\<close>, and, in the \<^verbatim>\<open>DEINIT\<close> command, the
  \<^verbatim>\<open>DESTROY\<close> of every category.
\<close>

theorem C3_ownership_guards:
  "(Menu_driver_ctl RARCH_MENU_CTL_DEINIT \<in> set (issued w (uninit_drivers K flags w))
      \<longleftrightarrow> HAVE_MENU K \<and> flags AND DRIVER_MENU K \<noteq> 0 \<and> \<not> menu_driver_owns_driver w)
   \<and> (Location_driver_ctl RARCH_LOCATION_CTL_DEINIT \<in> set (issued w (uninit_drivers K flags w))
      \<longleftrightarrow> flags AND DRIVER_LOCATION K \<noteq> 0 \<and> \<not> location_driver_owns_driver w)
   \<and> (Camera_driver_ctl RARCH_CAMERA_CTL_DEINIT \<in> set (issued w (uninit_drivers K flags w))
      \<longleftrightarrow> flags AND DRIVER_CAMERA K \<noteq> 0 \<and> \<not> camera_driver_owns_driver w)
   \<and> (Video_driver_ctl RARCH_DISPLAY_CTL_DESTROY_DATA
        \<in> set (issued w (uninit_drivers K flags w))
      \<longleftrightarrow> flags AND DRIVER_VIDEO K \<noteq> 0 \<and> \<not> video_driver_owns_driver w)
   \<and> (Input_driver_ctl RARCH_INPUT_CTL_DESTROY_DATA
        \<in> set (issued w (uninit_drivers K flags w))
      \<longleftrightarrow> flags AND DRIVER_INPUT K \<noteq> 0 \<and> \<not> input_driver_owns_driver w)
   \<and> (Audio_driver_ctl RARCH_AUDIO_CTL_DESTROY_DATA
        \<in> set (issued w (uninit_drivers K flags w))
      \<longleftrightarrow> flags AND DRIVER_AUDIO K \<noteq> 0 \<and> \<not> audio_driver_owns_driver w)
   \<and> (Menu_driver_ctl RARCH_MENU_CTL_CONTEXT_DESTROY
        \<in> set (issued w (uninit_drivers K flags w))
      \<longleftrightarrow> HAVE_MENU K \<and> flags AND DRIVER_MENU K \<noteq> 0)
   \<and> (Audio_driver_ctl RARCH_AUDIO_CTL_DEINIT \<in> set (issued w (uninit_drivers K flags w))
      \<longleftrightarrow> flags AND DRIVER_AUDIO K \<noteq> 0)
   \<and> (Video_driver_ctl RARCH_DISPLAY_CTL_DEINIT \<in> set (issued w (uninit_drivers K flags w))
      \<longleftrightarrow> flags AND DRIVERS_VIDEO_INPUT K \<noteq> 0)
   \<and> driver_ctl K RARCH_DRIVER_CTL_DEINIT data w =
       Inr (False,
         w\<lparr>calls := calls w @
             [Video_driver_ctl RARCH_DISPLAY_CTL_DESTROY,
              Audio_driver_ctl RARCH_AUDIO_CTL_DESTROY,
              Input_driver_ctl RARCH_INPUT_CTL_DESTROY] @
             (if HAVE_MENU K then [Menu_driver_ctl RARCH_MENU_CTL_DESTROY] else []) @
             [Location_driver_ctl RARCH_LOCATION_CTL_DESTROY,
              Camera_driver_ctl RARCH_CAMERA_CTL_DESTROY,
              Retro_uninit_libretro_cbs]\<rparr>)"
  by (intro conjI issued_uninit_mem deinit_eq)

theorem C3_ownership_guards_witness:
  "Menu_driver_ctl RARCH_MENU_CTL_DEINIT
     \<notin> set (issued owned_world (uninit_drivers example_config 32 owned_world))
   \<and> Menu_driver_ctl RARCH_MENU_CTL_DEINIT
     \<in> set (issued example_world (uninit_drivers example_config 32 example_world))
   \<and> Video_driver_ctl RARCH_DISPLAY_CTL_DESTROY_DATA
     \<notin> set (issued owned_world (uninit_drivers example_config 2 owned_world))"
  using C3_ownership_guards [of owned_world example_config 32]
    C3_ownership_guards [of example_world example_config 32]
    C3_ownership_guards [of owned_world example_config 2]
  by (simp add: example_config_def example_world_def owned_world_def)

text \<open>
  C3, the claim as stated, fails: with every ownership flag set, the \<^verbatim>\<open>DEINIT\<close> command
  still issues the \<^verbatim>\<open>DESTROY\<close> call of every category, and \<^verbatim>\<open>UNINIT\<close> with \<^verbatim>\<open>DRIVER_AUDIO\<close>
  in the bitmask still issues the audio \<^verbatim>\<open>DEINIT\<close>.
\<close>

theorem C3_owned_still_destroyed_counterexample:
  "menu_driver_owns_driver owned_world \<and> video_driver_owns_driver owned_world
   \<and> audio_driver_owns_driver owned_world
   \<and> driver_ctl example_config RARCH_DRIVER_CTL_DEINIT None owned_world =
       Inr (False,
         owned_world\<lparr>calls :=
           [Video_driver_ctl RARCH_DISPLAY_CTL_DESTROY,
            Audio_driver_ctl RARCH_AUDIO_CTL_DESTROY,
            Input_driver_ctl RARCH_INPUT_CTL_DESTROY,
            Menu_driver_ctl RARCH_MENU_CTL_DESTROY,
            Location_driver_ctl RARCH_LOCATION_CTL_DESTROY,
            Camera_driver_ctl RARCH_CAMERA_CTL_DESTROY,
            Retro_uninit_libretro_cbs]\<rparr>)
   \<and> (1 :: int32) AND DRIVER_AUDIO example_config \<noteq> 0
   \<and> Audio_driver_ctl RARCH_AUDIO_CTL_DEINIT
       \<in> set (issued owned_world (uninit_drivers example_config 1 owned_world))"
  by (simp add: deinit_eq issued_uninit_mem)
     (simp add: example_config_def example_world_def owned_world_def)


section \<open>Cycling through the backends\<close>

lemma strcmp_null: "strcmp s ''null'' \<noteq> 0 \<longleftrightarrow> s \<noteq> ''null''"
  by (simp only: strcmp_eq_0)

lemma find_next_driver_eq:
  "find_next_driver K R label s len =
     (if 0 \<le> find_driver_index K R label s \<and> s \<noteq> ''null''
      then (True,
            if nat (find_driver_index K R label s + 1) < length (label_drivers K R label)
            then strlcpy s
                   (label_drivers K R label ! nat (find_driver_index K R label s + 1)) len
            else s)
      else (False, s))"
proof (cases "0 \<le> find_driver_index K R label s \<and> s \<noteq> ''null''")
  case True
  then have "nat (find_driver_index K R label s + 1) < length (label_drivers K R label)
      \<longleftrightarrow> find_driver_index K R label s + 1 < int (length (label_drivers K R label))"
    by linarith
  with True show ?thesis
    by (simp add: find_next_driver_def Let_def strcmp_null find_driver_nonempty_eq
        driver_find_eq)
next
  case False
  then show ?thesis
    by (auto simp add: find_next_driver_def Let_def strcmp_null)
qed

lemma find_next_driver_null: "find_next_driver K R label ''null'' len = (False, ''null'')"
  by (simp add: find_next_driver_eq)

lemma find_prev_driver_eq:
  "find_prev_driver K R label s len =
     (if 0 < find_driver_index K R label s
      then (True,
            strlcpy s (label_drivers K R label ! nat (find_driver_index K R label s - 1)) len)
      else (False, s))"
proof (cases "0 < find_driver_index K R label s")
  case True
  then have "nat (find_driver_index K R label s) < length (label_drivers K R label)"
    using find_driver_index_found [of K R label s] by simp
  with True have "find_driver_index K R label s - 1 < int (length (label_drivers K R label))"
    by linarith
  with True show ?thesis
    by (simp add: find_prev_driver_def Let_def find_driver_nonempty_eq driver_find_eq)
next
  case False
  then show ?thesis
    by (simp add: find_prev_driver_def Let_def)
qed

text \<open>
  C5. \<^verbatim>\<open>find_next_driver\<close> succeeds, and writes the name at index + 1 of the category's
  registry into the buffer (cut to the buffer's size; the buffer is left as it is when
  the registry has no entry there), only when \<^verbatim>\<open>find_driver_index\<close> finds the current
  name at an index \<open>\<ge> 0\<close> and the name is not \<open>''null''\<close>. Otherwise it returns false and
  the buffer is unchanged. So at the selection \<open>''null''\<close> it fails, and any number of
  repeated calls leave the selection at \<open>''null''\<close>. A found index is an index of the
  registry whose entry matches the name without regard to case.
\<close>

theorem C5_find_next_driver:
  "find_next_driver K R label s len =
     (if 0 \<le> find_driver_index K R label s \<and> s \<noteq> ''null''
      then (True,
            if nat (find_driver_index K R label s + 1) < length (label_drivers K R label)
            then strlcpy s
                   (label_drivers K R label ! nat (find_driver_index K R label s + 1)) len
            else s)
      else (False, s))
   \<and> (snd (find_next_driver K R label s len) \<noteq> s \<longrightarrow>
        0 \<le> find_driver_index K R label s \<and> s \<noteq> ''null'')
   \<and> (0 \<le> find_driver_index K R label s \<longrightarrow>
        nat (find_driver_index K R label s) < length (label_drivers K R label)
        \<and> strcasecmp s
            (strlcpy [] (label_drivers K R label ! nat (find_driver_index K R label s)) 256)
          = 0)
   \<and> find_next_driver K R label ''null'' len = (False, ''null'')
   \<and> ((\<lambda>name. snd (find_next_driver K R label name len)) ^^ n) ''null'' = ''null''"
proof -
  have only: "snd (find_next_driver K R label s len) \<noteq> s \<longrightarrow>
        0 \<le> find_driver_index K R label s \<and> s \<noteq> ''null''"
    by (simp add: find_next_driver_eq)
  have found: "0 \<le> find_driver_index K R label s \<longrightarrow>
        nat (find_driver_index K R label s) < length (label_drivers K R label)
        \<and> strcasecmp s
            (strlcpy [] (label_drivers K R label ! nat (find_driver_index K R label s)) 256)
          = 0"
    using find_driver_index_found [of K R label s] by simp
  have again: "((\<lambda>name. snd (find_next_driver K R label name len)) ^^ n) ''null'' = ''null''"
    by (induction n) (simp_all add: find_next_driver_null)
  show ?thesis
    by (intro conjI find_next_driver_eq only found find_next_driver_null again)
qed

theorem C5_find_next_driver_witness:
  "0 \<le> find_driver_index example_config example_registries ''audio_driver'' ''DSP''
   \<and> find_next_driver example_config example_registries ''audio_driver'' ''DSP'' 32
       = (True, ''null'')
   \<and> find_next_driver example_config example_registries ''audio_driver'' ''null'' 32
       = (False, ''null'')
   \<and> find_next_driver example_config example_registries ''audio_driver'' ''ctr'' 32
       = (False, ''ctr'')"
  using C5_find_next_driver [of example_config example_registries "''audio_driver''" "''DSP''" 32 0]
    C5_find_next_driver [of example_config example_registries "''audio_driver''" "''ctr''" 32 0]
  by (simp add: example_index example_label strlcpy_def)

text \<open>
  C6. \<^verbatim>\<open>find_prev_driver\<close> succeeds and overwrites the buffer with the name at index - 1
  of the category's registry (cut to the buffer's size; the name itself when it fits)
  when \<^verbatim>\<open>find_driver_index\<close> finds the current name at an index \<open>> 0\<close>. When the index is
  0 or the name is not found (\<open>-1\<close>), it returns false and the buffer is equal before and
  after the call.
\<close>

theorem C6_find_prev_driver:
  "find_prev_driver K R label s len =
     (if 0 < find_driver_index K R label s
      then (True,
            strlcpy s (label_drivers K R label ! nat (find_driver_index K R label s - 1)) len)
      else (False, s))
   \<and> (0 < find_driver_index K R label s
        \<and> length (label_drivers K R label ! nat (find_driver_index K R label s - 1)) < len
      \<longrightarrow> find_prev_driver K R label s len =
            (True, label_drivers K R label ! nat (find_driver_index K R label s - 1)))
   \<and> (find_driver_index K R label s \<le> 0 \<longrightarrow>
        find_prev_driver K R label s len = (False, s))
   \<and> (0 < find_driver_index K R label s \<longrightarrow>
        nat (find_driver_index K R label s) < length (label_drivers K R label))"
proof -
  have fits: "0 < find_driver_index K R label s
        \<and> length (label_drivers K R label ! nat (find_driver_index K R label s - 1)) < len
      \<longrightarrow> find_prev_driver K R label s len =
            (True, label_drivers K R label ! nat (find_driver_index K R label s - 1))"
    by (auto simp add: find_prev_driver_eq strlcpy_def)
  have fails: "find_driver_index K R label s \<le> 0 \<longrightarrow>
        find_prev_driver K R label s len = (False, s)"
    by (simp add: find_prev_driver_eq)
  have found: "0 < find_driver_index K R label s \<longrightarrow>
        nat (find_driver_index K R label s) < length (label_drivers K R label)"
    using find_driver_index_found [of K R label s] by simp
  show ?thesis
    by (intro conjI find_prev_driver_eq fits fails found)
qed

theorem C6_find_prev_driver_witness:
  "0 < find_driver_index example_config example_registries ''audio_driver'' ''DSP''
   \<and> find_prev_driver example_config example_registries ''audio_driver'' ''DSP'' 32
       = (True, ''csnd'')
   \<and> find_driver_index example_config example_registries ''audio_driver'' ''csnd'' \<le> 0
   \<and> find_prev_driver example_config example_registries ''audio_driver'' ''csnd'' 32
       = (False, ''csnd'')
   \<and> find_prev_driver example_config example_registries ''audio_driver'' ''ctr'' 32
       = (False, ''ctr'')"
  using C6_find_prev_driver [of example_config example_registries "''audio_driver''" "''DSP''" 32]
    C6_find_prev_driver [of example_config example_registries "''audio_driver''" "''csnd''" 32]
    C6_find_prev_driver [of example_config example_registries "''audio_driver''" "''ctr''" 32]
  by (simp add: example_index example_label strlcpy_def)

end
